theory Spec2Isabelle
  imports Main "HOL-Library.Word"
begin

section \<open>The counter circuit\<close>

text \<open>
  \<^verbatim>\<open>class Counter\<close> of \<^verbatim>\<open>examples/amaranth/counter/counter.py\<close> declares three signals:
  the one-bit input \<^verbatim>\<open>enable\<close>, the eight-bit register \<^verbatim>\<open>count\<close> and the one-bit register
  \<^verbatim>\<open>overflow\<close>. A one-bit signal is a \<open>bool\<close>, the eight-bit one an \<open>8 word\<close>.
\<close>

record Counter =
  enable :: bool
  count :: "8 word"
  overflow :: bool

text \<open>
  \<^verbatim>\<open>Counter.__init__\<close>: a signal declared without a reset value starts at zero.
\<close>

definition Counter_init :: Counter where
  "Counter_init = \<lparr>enable = False, count = 0, overflow = False\<rparr>"

text \<open>
  \<^verbatim>\<open>Counter.elaborate\<close> adds three statements to the synchronous domain, under two
  \<^verbatim>\<open>If\<close>/\<^verbatim>\<open>Else\<close> blocks. Their joint effect at one clock edge is the function below: every
  right-hand side and every condition reads the values of the signals before the edge
  (the argument \<open>s\<close>), a register that no active statement assigns keeps its value, and
  the statements are applied in the order in which they were added.

  \<^verbatim>\<open>self.count + 1\<close> is an unsigned sum that is one bit wider than \<^verbatim>\<open>count\<close>; the assignment
  to the eight-bit \<^verbatim>\<open>count\<close> keeps its low eight bits, which is what \<open>word_of_nat\<close> does to
  the sum computed on natural numbers.
\<close>

definition elaborate :: "Counter \<Rightarrow> Counter" where
  "elaborate s =
     (let m = s;
          m = (if enable s then m\<lparr>count := word_of_nat (unat (count s) + 1)\<rparr> else m);
          m = (if enable s \<and> count s = 255 then m\<lparr>overflow := True\<rparr>
               else m\<lparr>overflow := False\<rparr>)
      in m)"

text \<open>
  The properties of the circuit are about the states it reaches from some state after a
  sequence of clock edges, \<open>enable\<close> being driven to an arbitrary value before each edge.
  \<open>clock_edges ens s\<close> is the state after the edges whose enable values are \<open>ens\<close>, in
  this order.
\<close>

fun clock_edges :: "bool list \<Rightarrow> Counter \<Rightarrow> Counter" where
  "clock_edges [] s = s"
| "clock_edges (en # ens) s = clock_edges ens (elaborate (s\<lparr>enable := en\<rparr>))"

section \<open>The simulation and its testbench\<close>

text \<open>
  \<^verbatim>\<open>simulate\<close> hands the circuit and the generator \<^verbatim>\<open>testbench\<close> to the simulator of the
  hardware-description library, which is not part of this repository. What the testbench
  relies on is modelled by explicit state passing: the state of a simulation is the
  circuit under test, the waveform recorded so far (one sample of the signals for the start
  and one after every clock edge) and the lines printed so far.
  \<^item> \<^verbatim>\<open>yield Tick()\<close> advances the simulation over one clock edge: the synchronous
    statements of the circuit take effect once, and the testbench resumes on the values
    after the edge;
  \<^item> \<^verbatim>\<open>yield dut.enable.eq(v)\<close> drives the input, in time for the next edge;
  \<^item> \<^verbatim>\<open>yield dut.overflow\<close> reads the current value of the signal.
\<close>

record sim =
  dut :: Counter
  vcd :: "Counter list"
  printed :: "string list"

text \<open>\<^verbatim>\<open>Simulator(dut)\<close>: a fresh simulation of the circuit.\<close>

definition Simulator :: "Counter \<Rightarrow> sim" where
  "Simulator d = \<lparr>dut = d, vcd = [d], printed = []\<rparr>"

definition Tick :: "sim \<Rightarrow> sim" where
  "Tick st = (let d = elaborate (dut st) in st\<lparr>dut := d, vcd := vcd st @ [d]\<rparr>)"

definition set_enable :: "bool \<Rightarrow> sim \<Rightarrow> sim" where
  "set_enable v st = st\<lparr>dut := (dut st)\<lparr>enable := v\<rparr>\<rparr>"

definition print :: "string \<Rightarrow> sim \<Rightarrow> sim" where
  "print line st = st\<lparr>printed := printed st @ [line]\<rparr>"

text \<open>\<^verbatim>\<open>for _ in range(n): yield Tick()\<close>\<close>

fun ticks :: "nat \<Rightarrow> sim \<Rightarrow> sim" where
  "ticks 0 st = st"
| "ticks (Suc n) st = ticks n (Tick st)"

text \<open>
  The decimal numeral that an f-string writes for an integer.
\<close>

definition digit :: "nat \<Rightarrow> char" where
  "digit d = ''0123456789'' ! d"

fun str_nat :: "nat \<Rightarrow> string" where
  "str_nat n = (if n < 10 then [digit n] else str_nat (n div 10) @ [digit (n mod 10)])"

declare str_nat.simps [simp del]

definition str :: "int \<Rightarrow> string" where
  "str i = (if i < 0 then CHR ''-'' # str_nat (nat (- i)) else str_nat (nat i))"

text \<open>
  The first part of \<^verbatim>\<open>testbench\<close>, up to the line that announces test 4: five edges with
  \<^verbatim>\<open>enable\<close> low, twenty with it high, five with it low, ten with it high.
\<close>

definition testbench_prelude :: "sim \<Rightarrow> sim" where
  "testbench_prelude st0 =
     (let st = set_enable False st0;
          st = ticks 5 st;
          st = print ''Test 1: Enable counting'' st;
          st = set_enable True st;
          st = ticks 20 st;
          st = print ''Test 2: Disable counting'' st;
          st = set_enable False st;
          st = ticks 5 st;
          st = print ''Test 3: Resume counting'' st;
          st = set_enable True st;
          st = ticks 10 st;
          st = print ''Test 4: Counting to overflow'' st
      in st)"

text \<open>
  The line \<^verbatim>\<open>f"  Overflow detected at cycle {cycles}"\<close> and the loop of test 4,
  \<^verbatim>\<open>while cycles < 300: yield Tick(); cycles += 1; overflow = yield dut.overflow;
  if overflow: print(...); break\<close>,
  as a function of the loop variable and the simulation state. It returns the final value
  of \<^verbatim>\<open>cycles\<close> with the state.
\<close>

definition overflow_message :: "int \<Rightarrow> string" where
  "overflow_message cycles = ''  Overflow detected at cycle '' @ str cycles"

function test4_loop :: "int \<Rightarrow> sim \<Rightarrow> int \<times> sim" where
  "test4_loop cycles st =
     (if cycles < 300 then
        (let st1 = Tick st;
             cycles1 = cycles + 1
         in if overflow (dut st1)
            then (cycles1, print (overflow_message cycles1) st1)
            else test4_loop cycles1 st1)
      else (cycles, st))"
  by pat_completeness auto
termination
  by (relation "measure (\<lambda>(cycles, st). nat (300 - cycles))") auto

declare test4_loop.simps [simp del]

definition testbench :: "sim \<Rightarrow> sim" where
  "testbench st0 =
     (let st = testbench_prelude st0;
          (cycles, st) = test4_loop 0 st;
          st = ticks 10 st;
          st = print ''Simulation complete!'' st
      in st)"

section \<open>The program\<close>

text \<open>
  What the program leaves behind is its standard output and the files it wrote. The
  contents of the files come from the hardware-description library; a file is represented
  by what it was made from: the waveform by the recorded samples, the Verilog text by the
  names of the ports handed to the converter.
\<close>

datatype content = Waveform "Counter list" | Layout | Verilog "string list"

record world =
  stdout :: "string list"
  files :: "string \<rightharpoonup> content"

definition simulate :: "world \<Rightarrow> world" where
  "simulate w =
     (let st = testbench (Simulator Counter_init);
          w = w\<lparr>stdout := stdout w @ printed st\<rparr>;
          w = w\<lparr>files := (files w)(''counter.vcd'' \<mapsto> Waveform (vcd st),
                                   ''counter.gtkw'' \<mapsto> Layout)\<rparr>;
          w = w\<lparr>stdout := stdout w @ [CHR 0x0A # ''VCD file generated: counter.vcd'']\<rparr>;
          w = w\<lparr>stdout := stdout w @ [''Open in NovyWave: novywave counter.vcd'']\<rparr>
      in w)"

definition generate_verilog :: "world \<Rightarrow> world" where
  "generate_verilog w =
     (let output = Verilog [''enable'', ''count'', ''overflow''];
          w = w\<lparr>files := (files w)(''counter.v'' \<mapsto> output)\<rparr>;
          w = w\<lparr>stdout := stdout w @ [''Verilog file generated: counter.v'']\<rparr>
      in w)"

text \<open>
  The body of \<^verbatim>\<open>if __name__ == "__main__"\<close>, as a function of \<^verbatim>\<open>sys.argv\<close>. The test
  \<^verbatim>\<open>len(sys.argv) > 1\<close> guards the read of \<^verbatim>\<open>sys.argv[1]\<close>.
\<close>

definition main :: "string list \<Rightarrow> world \<Rightarrow> world" where
  "main argv w =
     (if length argv > 1 \<and> argv ! 1 = ''verilog'' then generate_verilog w
      else simulate w)"

section \<open>The transition at one clock edge\<close>

lemma elaborate_enable [simp]: "enable (elaborate s) = enable s"
  by (simp add: elaborate_def Let_def)

lemma elaborate_overflow [simp]: "overflow (elaborate s) = (enable s \<and> count s = 255)"
  by (simp add: elaborate_def Let_def)

lemma elaborate_count [simp]:
  "count (elaborate s) = (if enable s then count s + 1 else count s)"
  by (simp add: elaborate_def Let_def)

lemma unat_count_succ: "unat (w + 1 :: 8 word) = (unat w + 1) mod 256"
  by (simp add: unat_word_ariths)

lemma count_is_255: "(w = (255 :: 8 word)) = (unat w = 255)"
proof -
  have "(w = 255) = (unat w = unat (255 :: 8 word))"
    by (simp only: word_unat_eq_iff)
  then show ?thesis by simp
qed

text \<open>
  Claim C1. At one clock edge, for every state and every value of \<open>enable\<close>: when
  \<open>enable\<close> is true the next count is \<open>(count + 1) mod 256\<close> and the next overflow is
  true exactly when the count before the edge is 255; when \<open>enable\<close> is false the next
  count is the current count and the next overflow is false.
\<close>

theorem elaborate_transition:
  "unat (count (elaborate (s\<lparr>enable := True\<rparr>))) = (unat (count s) + 1) mod 256
   \<and> overflow (elaborate (s\<lparr>enable := True\<rparr>)) = (unat (count s) = 255)
   \<and> count (elaborate (s\<lparr>enable := False\<rparr>)) = count s
   \<and> overflow (elaborate (s\<lparr>enable := False\<rparr>)) = False"
  by (simp add: unat_count_succ count_is_255)

section \<open>Sequences of clock edges\<close>

lemma clock_edges_append:
  "clock_edges (xs @ ys) s = clock_edges ys (clock_edges xs s)"
  by (induction xs arbitrary: s) simp_all

lemma clock_edges_snoc:
  "clock_edges (xs @ [en]) s = elaborate ((clock_edges xs s)\<lparr>enable := en\<rparr>)"
  by (simp add: clock_edges_append)

lemma count_clock_edges:
  "count (clock_edges ens s) = count s + word_of_nat (length (filter (\<lambda>en. en) ens))"
  by (induction ens arbitrary: s) simp_all

lemma unat_count_clock_edges:
  "unat (count (clock_edges ens s)) =
     (unat (count s) + length (filter (\<lambda>en. en) ens)) mod 256"
  by (simp add: count_clock_edges unat_word_ariths unat_of_nat mod_add_right_eq)

lemma overflow_clock_edges_snoc:
  "overflow (clock_edges (xs @ [en]) s) = (en \<and> count (clock_edges xs s) = 255)"
  by (simp add: clock_edges_snoc)

lemma count_replicate_True:
  "count (clock_edges (replicate n True) s) = count s + word_of_nat n"
  by (simp add: count_clock_edges)

lemma overflow_replicate_True:
  "overflow (clock_edges (replicate (Suc n) True) s) = (count s + word_of_nat n = 255)"
proof -
  have "replicate (Suc n) True = replicate n True @ [True]"
    by (simp add: replicate_append_same)
  then show ?thesis
    by (simp only: overflow_clock_edges_snoc count_replicate_True) simp
qed

lemma clock_edges_replicate_False:
  "clock_edges (replicate (Suc n) False) s = s\<lparr>enable := False, overflow := False\<rparr>"
  by (induction n arbitrary: s) (simp_all add: elaborate_def Let_def)

text \<open>
  Claim C2. In every state reached from the initial state by a sequence of clock edges
  with arbitrary enable values, overflow is true if and only if there is an immediately
  preceding state, its count was 255 and enable was true at the edge that left it. (The
  initial state has no preceding state, and its overflow is false.)
\<close>

theorem overflow_iff_previous:
  "overflow (clock_edges ens Counter_init) =
     (\<exists>pre en. ens = pre @ [en] \<and> en \<and> count (clock_edges pre Counter_init) = 255)"
proof (cases ens rule: rev_cases)
  case Nil
  then show ?thesis by (simp add: Counter_init_def)
next
  case (snoc pre en)
  then show ?thesis by (simp add: overflow_clock_edges_snoc)
qed

text \<open>
  Claim C3. Starting from a count of 0, after any sequence of clock edges, \<open>N\<close> of which
  had enable true (the others, wherever they fall, had it false), the count is
  \<open>N mod 256\<close>. \<open>N\<close> is the number of true entries of the enable history. The first
  conjunct starts from any state whose count is 0, the second from the initial state.
\<close>

theorem count_after_enabled_edges:
  "unat (count (clock_edges ens (s\<lparr>count := 0\<rparr>))) = length (filter (\<lambda>en. en) ens) mod 256
   \<and> unat (count (clock_edges ens Counter_init)) = length (filter (\<lambda>en. en) ens) mod 256"
  by (simp add: unat_count_clock_edges Counter_init_def)

text \<open>
  Claim C4. From the initial state, after 255 consecutive edges with enable true the count
  is 255 and overflow is false; after the 256th the count is 0 and overflow is true.
\<close>

theorem overflow_at_256th_edge:
  "count (clock_edges (replicate 255 True) Counter_init) = 255
   \<and> overflow (clock_edges (replicate 255 True) Counter_init) = False
   \<and> count (clock_edges (replicate 256 True) Counter_init) = 0
   \<and> overflow (clock_edges (replicate 256 True) Counter_init) = True"
proof -
  have a: "(255::nat) = Suc 254" and b: "(256::nat) = Suc 255" by simp_all
  have "overflow (clock_edges (replicate (Suc 254) True) Counter_init) = False"
    by (simp only: overflow_replicate_True) (simp add: Counter_init_def)
  moreover have "overflow (clock_edges (replicate (Suc 255) True) Counter_init) = True"
    by (simp only: overflow_replicate_True) (simp add: Counter_init_def)
  ultimately show ?thesis
    by (simp add: count_replicate_True Counter_init_def a [symmetric] b [symmetric]
        del: replicate_Suc)
qed

text \<open>
  Claim C8. In every state reached from the initial state, if overflow is true then the
  count is 0.
\<close>

theorem overflow_implies_count_zero:
  "overflow (clock_edges ens Counter_init) \<Longrightarrow> count (clock_edges ens Counter_init) = 0"
  by (cases ens rule: rev_cases) (simp_all add: clock_edges_snoc Counter_init_def)

theorem overflow_implies_count_zero_witness:
  "overflow (clock_edges (replicate 256 True) Counter_init)
   \<and> count (clock_edges (replicate 256 True) Counter_init) = 0"
proof -
  have "(256::nat) = Suc 255" by simp
  moreover have "overflow (clock_edges (replicate (Suc 255) True) Counter_init)"
    by (simp only: overflow_replicate_True) (simp add: Counter_init_def)
  ultimately have h: "overflow (clock_edges (replicate 256 True) Counter_init)"
    by (simp only:)
  from h overflow_implies_count_zero [OF h] show ?thesis by simp
qed

section \<open>The testbench\<close>

lemma dut_Tick [simp]: "dut (Tick st) = elaborate (dut st)"
  by (simp add: Tick_def Let_def)

lemma vcd_Tick [simp]: "vcd (Tick st) = vcd st @ [elaborate (dut st)]"
  by (simp add: Tick_def Let_def)

lemma printed_Tick [simp]: "printed (Tick st) = printed st"
  by (simp add: Tick_def Let_def)

lemma length_vcd_ticks: "length (vcd (ticks n st)) = length (vcd st) + n"
  by (induction n arbitrary: st) simp_all

lemma printed_ticks: "printed (ticks n st) = printed st"
  by (induction n arbitrary: st) simp_all

lemma dut_ticks:
  "dut (ticks n st) = clock_edges (replicate n (enable (dut st))) (dut st)"
  by (induction n arbitrary: st) simp_all

text \<open>
  Claim C7. For every state, a clock edge with enable false leaves the count unchanged
  and makes overflow false. From the initial state, any number \<open>k\<close> of consecutive edges
  with enable false leaves the count 0 and overflow false; and in the testbench, the
  waveform of the first phase (enable driven low, five edges) shows count 0 and overflow
  false in the sample of the start and in the sample after each of the five edges.
\<close>

theorem disabled_edge_keeps_count:
  "count (elaborate (s\<lparr>enable := False\<rparr>)) = count s
   \<and> overflow (elaborate (s\<lparr>enable := False\<rparr>)) = False
   \<and> count (clock_edges (replicate k False) Counter_init) = 0
   \<and> overflow (clock_edges (replicate k False) Counter_init) = False
   \<and> vcd (ticks 5 (set_enable False (Simulator Counter_init))) =
       replicate 6 \<lparr>enable = False, count = 0, overflow = False\<rparr>"
proof -
  have "vcd (ticks 5 (set_enable False (Simulator Counter_init))) =
       replicate 6 \<lparr>enable = False, count = 0, overflow = False\<rparr>"
    by (simp add: eval_nat_numeral set_enable_def Simulator_def Counter_init_def
        elaborate_def Let_def)
  moreover have "count (clock_edges (replicate k False) Counter_init) = 0
     \<and> overflow (clock_edges (replicate k False) Counter_init) = False"
    by (cases k) (simp_all add: clock_edges_replicate_False Counter_init_def del: replicate_Suc)
  ultimately show ?thesis by simp
qed

section \<open>The polling loop of test 4\<close>

lemma test4_loop_run:
  assumes "test4_loop c0 st = (c, r)" and "c0 < 300"
  shows "c0 < c \<and> c \<le> 300
    \<and> (\<forall>j. 0 < j \<and> j < nat (c - c0) \<longrightarrow> \<not> overflow (dut (ticks j st)))
    \<and> (overflow (dut (ticks (nat (c - c0)) st)) \<longrightarrow>
          r = print (overflow_message c) (ticks (nat (c - c0)) st))
    \<and> (\<not> overflow (dut (ticks (nat (c - c0)) st)) \<longrightarrow>
          c = 300 \<and> r = ticks (nat (c - c0)) st)"
  using assms
proof (induction c0 st arbitrary: c r rule: test4_loop.induct)
  case (1 cycles st)
  from "1.prems"(2)
  have unfold: "test4_loop cycles st =
      (if overflow (dut (Tick st))
       then (cycles + 1, print (overflow_message (cycles + 1)) (Tick st))
       else test4_loop (cycles + 1) (Tick st))"
    by (subst test4_loop.simps) (simp only: Let_def if_True)
  show ?case
  proof (cases "overflow (dut (Tick st))")
    case True
    with unfold "1.prems"(1)
    have "(cycles + 1, print (overflow_message (cycles + 1)) (Tick st)) = (c, r)"
      by (simp only: if_True)
    then have "c = cycles + 1"
      and "r = print (overflow_message (cycles + 1)) (Tick st)"
      by auto
    with True "1.prems"(2) show ?thesis by simp
  next
    case False
    with unfold "1.prems"(1) have rec: "test4_loop (cycles + 1) (Tick st) = (c, r)"
      by (simp only: if_False)
    show ?thesis
    proof (cases "cycles + 1 < 300")
      case last: False
      with rec "1.prems" have "c = 300" "r = Tick st" "cycles = 299"
        by (auto simp add: test4_loop.simps [of "cycles + 1" "Tick st"])
      with False show ?thesis by auto
    next
      case more: True
      from "1.IH" [OF "1.prems"(2) refl refl False rec more]
      have ih: "cycles + 1 < c" "c \<le> 300"
        "\<forall>j. 0 < j \<and> j < nat (c - (cycles + 1)) \<longrightarrow> \<not> overflow (dut (ticks j (Tick st)))"
        "overflow (dut (ticks (nat (c - (cycles + 1))) (Tick st))) \<longrightarrow>
           r = print (overflow_message c) (ticks (nat (c - (cycles + 1))) (Tick st))"
        "\<not> overflow (dut (ticks (nat (c - (cycles + 1))) (Tick st))) \<longrightarrow>
           c = 300 \<and> r = ticks (nat (c - (cycles + 1))) (Tick st)"
        by simp_all
      from ih(1) have n: "nat (c - cycles) = Suc (nat (c - (cycles + 1)))"
        by simp
      have early: "\<not> overflow (dut (ticks j st))" if "0 < j" and "j < nat (c - cycles)" for j
      proof (cases j)
        case 0
        with that show ?thesis by simp
      next
        case (Suc k)
        show ?thesis
        proof (cases "k = 0")
          case True
          with Suc False show ?thesis by simp
        next
          case k: False
          with that Suc n ih(3) show ?thesis by simp
        qed
      qed
      from ih n early show ?thesis by simp
    qed
  qed
qed

lemma dut_print [simp]: "dut (print l st) = dut st"
  by (simp add: print_def)

lemma vcd_print [simp]: "vcd (print l st) = vcd st"
  by (simp add: print_def)

lemma printed_print [simp]: "printed (print l st) = printed st @ [l]"
  by (simp add: print_def)

text \<open>
  Claim C5. The polling loop of test 4, entered with \<open>cycles = 0\<close>, returns (it is a total
  function) after \<open>c\<close> clock edges with \<open>1 \<le> c \<le> 300\<close>: the state it returns is the
  state after \<open>c\<close> edges, and the waveform has grown by \<open>c\<close> samples. Overflow was not
  observed after any earlier edge of the loop. If overflow is observed after edge \<open>c\<close> the
  loop has printed the line with the cycle index \<open>c\<close>, and nothing else; if it is not,
  then \<open>c\<close> is the cap 300 and the loop has printed nothing.
\<close>

theorem test4_loop_polls_at_most_300:
  assumes "test4_loop 0 st = (c, r)"
  shows "1 \<le> c \<and> c \<le> 300
     \<and> dut r = dut (ticks (nat c) st)
     \<and> vcd r = vcd (ticks (nat c) st)
     \<and> length (vcd r) = length (vcd st) + nat c
     \<and> (\<forall>j. 0 < j \<and> j < nat c \<longrightarrow> \<not> overflow (dut (ticks j st)))
     \<and> (overflow (dut r) \<longrightarrow> printed r = printed st @ [overflow_message c])
     \<and> (\<not> overflow (dut r) \<longrightarrow> c = 300 \<and> printed r = printed st)"
proof -
  from test4_loop_run [OF assms]
  have run: "0 < c" "c \<le> 300"
    "\<forall>j. 0 < j \<and> j < nat c \<longrightarrow> \<not> overflow (dut (ticks j st))"
    "overflow (dut (ticks (nat c) st)) \<longrightarrow> r = print (overflow_message c) (ticks (nat c) st)"
    "\<not> overflow (dut (ticks (nat c) st)) \<longrightarrow> c = 300 \<and> r = ticks (nat c) st"
    by simp_all
  show ?thesis
  proof (cases "overflow (dut (ticks (nat c) st))")
    case True
    with run(4) have "r = print (overflow_message c) (ticks (nat c) st)" by simp
    with True run(1,2,3) show ?thesis
      by (simp add: length_vcd_ticks printed_ticks)
  next
    case False
    with run(5) have "c = 300" "r = ticks (nat c) st" by simp_all
    with False run(3) show ?thesis
      by (simp add: length_vcd_ticks printed_ticks)
  qed
qed

lemma overflow_ticks_enabled:
  assumes "enable (dut st)"
  shows "overflow (dut (ticks (Suc n) st)) = (count (dut st) + word_of_nat n = 255)"
  using assms by (simp only: dut_ticks overflow_replicate_True) 

lemma overflow_ticks_enabled_unat:
  assumes "enable (dut st)" and "0 < j"
  shows "overflow (dut (ticks j st)) = ((unat (count (dut st)) + (j - 1)) mod 256 = 255)"
proof -
  from assms(2) obtain n where j: "j = Suc n" by (cases j) simp_all
  have "unat (count (dut st) + word_of_nat n) = (unat (count (dut st)) + n) mod 256"
    by (simp add: unat_word_ariths unat_of_nat mod_add_right_eq)
  with assms(1) j show ?thesis
    by (simp only: overflow_ticks_enabled count_is_255) simp
qed

lemma test4_loop_enabled:
  assumes "enable (dut st)"
  shows "test4_loop 0 st =
     (256 - int (unat (count (dut st))),
      print (overflow_message (256 - int (unat (count (dut st)))))
        (ticks (256 - unat (count (dut st))) st))"
proof -
  obtain c r where cr: "test4_loop 0 st = (c, r)" by (cases "test4_loop 0 st")
  define k where "k = unat (count (dut st))"
  have k: "k < 256" unfolding k_def using unsigned_less [of "count (dut st)", where ?'a = nat] by simp
  from test4_loop_run [OF cr]
  have run: "0 < c" "c \<le> 300"
    "\<forall>j. 0 < j \<and> j < nat c \<longrightarrow> \<not> overflow (dut (ticks j st))"
    "overflow (dut (ticks (nat c) st)) \<longrightarrow> r = print (overflow_message c) (ticks (nat c) st)"
    "\<not> overflow (dut (ticks (nat c) st)) \<longrightarrow> c = 300 \<and> r = ticks (nat c) st"
    by simp_all
  have ov: "overflow (dut (ticks j st)) = ((k + (j - 1)) mod 256 = 255)" if "0 < j" for j
    using overflow_ticks_enabled_unat [OF assms that] by (simp add: k_def)
  have at: "overflow (dut (ticks (256 - k) st))"
    using k ov [of "256 - k"] by simp
  have "\<not> 256 - k < nat c"
    using run(3) at k by auto
  then have le: "nat c \<le> 256 - k" by simp
  have "\<not> nat c < 256 - k"
  proof
    assume less: "nat c < 256 - k"
    with run(1) have "k + (nat c - 1) < 255" by simp
    then have "(k + (nat c - 1)) mod 256 \<noteq> 255" by simp
    with run(1) ov [of "nat c"] have "\<not> overflow (dut (ticks (nat c) st))" by simp
    with run(5) have "c = 300" by simp
    with less show False by simp
  qed
  with le have eq: "nat c = 256 - k" by simp
  with run(1) k have c: "c = 256 - int k" by simp
  from eq at run(4) have "r = print (overflow_message c) (ticks (256 - k) st)" by simp
  with cr c show ?thesis by (simp add: k_def)
qed

theorem test4_loop_polls_at_most_300_witness:
  "fst (test4_loop 0 (Simulator \<lparr>enable = True, count = 250, overflow = False\<rparr>)) = 6
   \<and> overflow (dut (snd (test4_loop 0 (Simulator \<lparr>enable = True, count = 250, overflow = False\<rparr>))))
   \<and> printed (snd (test4_loop 0 (Simulator \<lparr>enable = True, count = 250, overflow = False\<rparr>))) =
        [''  Overflow detected at cycle 6'']
   \<and> length (vcd (snd (test4_loop 0 (Simulator \<lparr>enable = True, count = 250, overflow = False\<rparr>)))) = 7"
proof -
  define W where "W = Simulator \<lparr>enable = True, count = 250, overflow = False\<rparr>"
  have en: "enable (dut W)" and cnt: "unat (count (dut W)) = 250"
    and vcd: "length (vcd W) = 1" and pr: "printed W = []"
    by (simp_all add: W_def Simulator_def)
  have h: "test4_loop 0 W = (6, print (overflow_message 6) (ticks 6 W))"
    using test4_loop_enabled [OF en] by (simp add: cnt)
  have o: "overflow (dut (print (overflow_message 6) (ticks 6 W)))"
    using overflow_ticks_enabled_unat [OF en, of 6] by (simp add: cnt)
  have m: "overflow_message 6 = ''  Overflow detected at cycle 6''"
    by (simp add: overflow_message_def str_def str_nat.simps digit_def)
  from test4_loop_polls_at_most_300 [OF h] o h show ?thesis
    unfolding W_def [symmetric] by (simp add: vcd pr m)
qed

section \<open>The fixed stimulus script\<close>

lemma dut_set_enable [simp]: "dut (set_enable v st) = (dut st)\<lparr>enable := v\<rparr>"
  by (simp add: set_enable_def)

lemma vcd_set_enable [simp]: "vcd (set_enable v st) = vcd st"
  by (simp add: set_enable_def)

lemma printed_set_enable [simp]: "printed (set_enable v st) = printed st"
  by (simp add: set_enable_def)

lemma printed_Simulator: "printed (Simulator d) = []"
  by (simp add: Simulator_def)

lemma enable_ticks: "enable (dut (ticks n st)) = enable (dut st)"
  by (induction n arbitrary: st) simp_all

lemma count_ticks:
  "count (dut (ticks n st)) =
     (if enable (dut st) then count (dut st) + word_of_nat n else count (dut st))"
  by (induction n arbitrary: st) simp_all

lemma enable_prelude: "enable (dut (testbench_prelude st))"
  by (simp add: testbench_prelude_def Let_def enable_ticks)

lemma count_prelude: "count (dut (testbench_prelude st)) = count (dut st) + 30"
  by (simp add: testbench_prelude_def Let_def enable_ticks count_ticks)

lemma printed_prelude:
  "printed (testbench_prelude st) = printed st @
     [''Test 1: Enable counting'', ''Test 2: Disable counting'', ''Test 3: Resume counting'',
      ''Test 4: Counting to overflow'']"
  by (simp add: testbench_prelude_def Let_def printed_ticks)

lemma test4_loop_script:
  "test4_loop 0 (testbench_prelude (Simulator Counter_init)) =
     (226, print (overflow_message 226) (ticks 226 (testbench_prelude (Simulator Counter_init))))"
  using test4_loop_enabled [OF enable_prelude, of "Simulator Counter_init"]
  by (simp add: count_prelude Simulator_def Counter_init_def)

lemma overflow_message_226: "overflow_message 226 = ''  Overflow detected at cycle 226''"
  by (simp add: overflow_message_def str_def str_nat.simps digit_def)

lemma overflow_script:
  assumes "0 < j"
  shows "overflow (dut (ticks j (testbench_prelude (Simulator Counter_init)))) =
     ((30 + (j - 1)) mod 256 = 255)"
  using overflow_ticks_enabled_unat [OF enable_prelude assms, of "Simulator Counter_init"]
  by (simp add: count_prelude Simulator_def Counter_init_def)

text \<open>
  Claim C9. Under the script of the testbench (5 edges with enable low, 20 with it high, 5
  with it low, 10 with it high, then the polling loop with enable still high), run on a
  fresh simulation of the circuit, the polling loop returns with \<open>cycles = 226\<close>, below
  the cap of 300, with overflow observed. Among the cycle indices 1 to 300 of the polling
  phase, 226 is the only one after which overflow is true, so it is the first. The
  testbench prints the line of the overflow with index 226: the branch that reaches the
  cap without a message is not taken.
\<close>

theorem testbench_overflow_at_cycle_226:
  "fst (test4_loop 0 (testbench_prelude (Simulator Counter_init))) = 226
   \<and> fst (test4_loop 0 (testbench_prelude (Simulator Counter_init))) < 300
   \<and> overflow (dut (snd (test4_loop 0 (testbench_prelude (Simulator Counter_init)))))
   \<and> {j. 0 < j \<and> j \<le> 300
          \<and> overflow (dut (ticks j (testbench_prelude (Simulator Counter_init))))} = {226}
   \<and> printed (testbench (Simulator Counter_init)) =
       [''Test 1: Enable counting'', ''Test 2: Disable counting'', ''Test 3: Resume counting'',
        ''Test 4: Counting to overflow'', ''  Overflow detected at cycle 226'',
        ''Simulation complete!'']"
proof -
  have first: "{j. 0 < j \<and> j \<le> 300
          \<and> overflow (dut (ticks j (testbench_prelude (Simulator Counter_init))))} = {226}"
  proof -
    have "(0 < j \<and> j \<le> 300 \<and> (30 + (j - 1)) mod 256 = 255) = (j = 226)" for j :: nat
    proof (cases "j \<le> 226")
      case True
      then show ?thesis by auto
    next
      case False
      show ?thesis
      proof (cases "j \<le> 300")
        case True
        from False have "30 + (j - 1) = (j - 227) + 256" by simp
        then have "(30 + (j - 1)) mod 256 = (j - 227) mod 256"
          by (simp only: mod_add_self2)
        with True False show ?thesis by simp
      next
        case False
        then show ?thesis by simp
      qed
    qed
    then have ar: "\<And>j :: nat. (0 < j \<and> j \<le> 300 \<and> (30 + (j - 1)) mod 256 = 255) = (j = 226)" .
    have "(0 < j \<and> j \<le> 300
          \<and> overflow (dut (ticks j (testbench_prelude (Simulator Counter_init))))) = (j = 226)"
      for j :: nat
    proof (cases "0 < j")
      case True
      show ?thesis by (simp only: overflow_script [OF True] ar)
    next
      case False
      then show ?thesis by simp
    qed
    then show ?thesis
      by (simp only: singleton_conv)
  qed
  have seen: "overflow (dut (snd (test4_loop 0 (testbench_prelude (Simulator Counter_init)))))"
    by (simp add: test4_loop_script overflow_script)
  have out: "printed (testbench (Simulator Counter_init)) =
       [''Test 1: Enable counting'', ''Test 2: Disable counting'', ''Test 3: Resume counting'',
        ''Test 4: Counting to overflow'', ''  Overflow detected at cycle 226'',
        ''Simulation complete!'']"
    by (simp add: testbench_def Let_def test4_loop_script printed_ticks printed_prelude
        overflow_message_226 printed_Simulator)
  from first seen out show ?thesis
    by (simp add: test4_loop_script)
qed

section \<open>The command line\<close>

lemma files_generate_verilog:
  "files (generate_verilog w) = (files w)(''counter.v'' \<mapsto> Verilog [''enable'', ''count'', ''overflow''])"
  by (simp add: generate_verilog_def Let_def)

lemma stdout_generate_verilog:
  "stdout (generate_verilog w) = stdout w @ [''Verilog file generated: counter.v'']"
  by (simp add: generate_verilog_def Let_def)

lemma files_simulate:
  "files (simulate w) =
     (files w)(''counter.vcd'' \<mapsto> Waveform (vcd (testbench (Simulator Counter_init))),
               ''counter.gtkw'' \<mapsto> Layout)"
  by (simp add: simulate_def Let_def)

text \<open>
  Claim C6. With no command-line argument (\<^verbatim>\<open>sys.argv\<close> holds the program name only) the
  program runs the simulation, which writes the waveform file \<^verbatim>\<open>counter.vcd\<close> and leaves
  \<^verbatim>\<open>counter.v\<close> as it was. With \<^verbatim>\<open>verilog\<close> as its first argument (whatever follows) it
  generates the Verilog file \<^verbatim>\<open>counter.v\<close> instead and does not run the simulation: the
  waveform file is left as it was, and the only line printed is that of the generator.
\<close>

theorem main_dispatch:
  "main [prog] w = simulate w
   \<and> files (main [prog] w) ''counter.vcd'' =
       Some (Waveform (vcd (testbench (Simulator Counter_init))))
   \<and> files (main [prog] w) ''counter.v'' = files w ''counter.v''
   \<and> main (prog # ''verilog'' # rest) w = generate_verilog w
   \<and> files (main (prog # ''verilog'' # rest) w) ''counter.v'' =
       Some (Verilog [''enable'', ''count'', ''overflow''])
   \<and> files (main (prog # ''verilog'' # rest) w) ''counter.vcd'' = files w ''counter.vcd''
   \<and> stdout (main (prog # ''verilog'' # rest) w) =
       stdout w @ [''Verilog file generated: counter.v'']"
  by (simp add: main_def files_simulate files_generate_verilog stdout_generate_verilog)

text \<open>
  Claim C10. When a first argument is present and is not the string \<^verbatim>\<open>verilog\<close>, the
  program does what it does with no argument: it runs the simulation. (\<open>main\<close> has no
  branch that rejects an argument or fails.)
\<close>

theorem main_other_argument:
  "a \<noteq> ''verilog'' \<Longrightarrow>
     main (prog # a # rest) w = simulate w \<and> main (prog # a # rest) w = main [prog] w"
  by (simp add: main_def)

theorem main_other_argument_witness:
  "''vcd'' \<noteq> ''verilog''
   \<and> main [''counter.py'', ''vcd''] \<lparr>stdout = [], files = Map.empty\<rparr> =
       simulate \<lparr>stdout = [], files = Map.empty\<rparr>
   \<and> main [''counter.py'', ''vcd''] \<lparr>stdout = [], files = Map.empty\<rparr> =
       main [''counter.py''] \<lparr>stdout = [], files = Map.empty\<rparr>"
proof -
  have h: "''vcd'' \<noteq> ''verilog''" by simp
  from h main_other_argument [OF h, of "''counter.py''" "[]" "\<lparr>stdout = [], files = Map.empty\<rparr>"]
  show ?thesis by auto
qed

end
